theory Spec2Isabelle
  imports Complex_Main
begin

section \<open>Values, errors and external collaborators\<close>

text \<open>
  The repository is a speech-analysis pipeline in Python (\<^verbatim>\<open>analysis_utils.py\<close>,
  \<^verbatim>\<open>comcopilotapp.py\<close>). Its numbers are Python and numpy floats; they are modelled
  as real numbers, so every sum, quotient and comparison below is exact, except in the
  segmenter, where the rounding of each float operation is written out. The Python
  value \<^verbatim>\<open>None\<close> is \<open>None\<close> of an option type. An exception is a value of
  type \<open>error\<close> on the left of a sum.

  The acoustic library (parselmouth/Praat), numpy, scipy and the Praat script are not
  part of the repository. What they return is an input of the model: a pitch contour,
  an intensity contour, the token list of one script run. Where such a call can raise,
  the input is a sum whose left side is the exception.
\<close>

datatype error = TypeError | ValueError | IndexError | LibraryError

type_synonym interval = "real \<times> real"

section \<open>Pitch\<close>

text \<open>
  \<^verbatim>\<open>wavfile.read\<close> returns the sample rate and an array of samples: one-dimensional
  for a mono file, of shape (frames, channels) otherwise.
\<close>

datatype sound_values = Mono "int list" | Multi nat "int list list"

text \<open>
  Lines 15-16: \<^verbatim>\<open>if sound_values.ndim > 1: sound_values = sound_values[:,0]\<close>.
  A one-dimensional array is left as it is; of a two-dimensional one column 0 is taken,
  which is an IndexError when the array has no column.
\<close>

fun first_channel :: "sound_values \<Rightarrow> error + int list" where
  "first_channel (Mono xs) = Inr xs"
| "first_channel (Multi channels rows) =
     (if channels = 0 then Inl IndexError else Inr (map (\<lambda>row. row ! 0) rows))"

text \<open>\<^verbatim>\<open>np.mean\<close> and \<^verbatim>\<open>np.std\<close> (population standard deviation, ddof = 0).\<close>

definition np_mean :: "real list \<Rightarrow> real" where
  "np_mean xs = sum_list xs / real (length xs)"

definition np_std :: "real list \<Rightarrow> real" where
  "np_std xs = sqrt (np_mean (map (\<lambda>x. (x - np_mean xs)\<^sup>2) xs))"

text \<open>
  \<^verbatim>\<open>analyze_pitch\<close>. The argument \<open>to_pitch\<close> stands for
  \<^verbatim>\<open>parselmouth.Sound(values, sampling_frequency=sr).to_pitch().selected_array['frequency']\<close>;
  \<open>audio_data\<close> is what \<^verbatim>\<open>wavfile.read\<close> gives for the file. Every exception
  inside the function is caught and turned into \<^verbatim>\<open>None\<close>; the success value
  \<^verbatim>\<open>{"pitch": std_dev}\<close> is \<open>Some std_dev\<close>.
\<close>

definition analyze_pitch ::
  "(nat \<Rightarrow> int list \<Rightarrow> error + real list) \<Rightarrow> error + nat \<times> sound_values \<Rightarrow> real option" where
  "analyze_pitch to_pitch audio_data =
     (case audio_data of
        Inl e \<Rightarrow> None
      | Inr (sr, sound_values) \<Rightarrow>
          (case first_channel sound_values of
             Inl e \<Rightarrow> None
           | Inr channel \<Rightarrow>
               (case to_pitch sr channel of
                  Inl e \<Rightarrow> None
                | Inr pitch_values \<Rightarrow>
                    (let pitch_values_filtered =
                           filter (\<lambda>f. f > 0 \<and> f \<ge> 75 \<and> f \<le> 400) pitch_values
                     in if length pitch_values_filtered = 0 then None
                        else Some (np_std pitch_values_filtered)))))"

definition classify_speaker :: "real option \<Rightarrow> string" where
  "classify_speaker std_dev =
     (case std_dev of
        None \<Rightarrow> ''Unknown''
      | Some v \<Rightarrow> if 10 \<le> v \<and> v \<le> 60 then ''Balanced'' else ''Unbalanced'')"

section \<open>Volume\<close>

text \<open>
  \<^verbatim>\<open>analyze_volume\<close>; the argument is \<^verbatim>\<open>intensity.values\<close>, or the exception of
  \<^verbatim>\<open>parselmouth.Sound\<close> or \<^verbatim>\<open>to_intensity\<close>, which the function does not catch.
\<close>

definition analyze_volume :: "error + real list \<Rightarrow> error + string" where
  "analyze_volume intensity =
     (case intensity of
        Inl e \<Rightarrow> Inl e
      | Inr intensity_values \<Rightarrow>
          (let average_intensity =
                 (if length intensity_values > 0 then Some (np_mean intensity_values) else None)
           in case average_intensity of
                None \<Rightarrow> Inr ''Unknown volume''
              | Some a \<Rightarrow>
                  if a < 45 then Inr ''Volume too low''
                  else if a > 75 then Inr ''Volume too loud''
                  else Inr ''Volume is ideal''))"

section \<open>Silences\<close>

text \<open>
  The loop of \<^verbatim>\<open>analyze_silences\<close> over \<^verbatim>\<open>zip(times, intensity_values)\<close>. The state
  is the list \<open>silences\<close> and \<open>current_silence\<close>, which is \<^verbatim>\<open>None\<close> or the
  two-element list \<^verbatim>\<open>[start, end]\<close> whose end may be \<^verbatim>\<open>None\<close>.
\<close>

fun silence_loop ::
  "real \<Rightarrow> real \<Rightarrow> (real \<times> real) list \<Rightarrow> interval list \<Rightarrow> (real \<times> real option) option
     \<Rightarrow> interval list \<times> (real \<times> real option) option" where
  "silence_loop silence_threshold min_silence_duration [] silences current_silence =
     (silences, current_silence)"
| "silence_loop silence_threshold min_silence_duration ((time, v) # rest) silences current_silence =
     (if v < silence_threshold then
        (case current_silence of
           None \<Rightarrow>
             silence_loop silence_threshold min_silence_duration rest silences (Some (time, None))
         | Some c \<Rightarrow>
             silence_loop silence_threshold min_silence_duration rest silences current_silence)
      else
        (case current_silence of
           None \<Rightarrow> silence_loop silence_threshold min_silence_duration rest silences None
         | Some (start, e) \<Rightarrow>
             (let e' = (case e of None \<Rightarrow> time | Some x \<Rightarrow> x)
              in if e' - start \<ge> min_silence_duration
                 then silence_loop silence_threshold min_silence_duration rest
                        (silences @ [(start, e')]) None
                 else silence_loop silence_threshold min_silence_duration rest silences None)))"

text \<open>
  \<^verbatim>\<open>analyze_silences\<close>. The argument \<open>contour\<close> is the pair
  \<^verbatim>\<open>(intensity.xs(), intensity.values[0])\<close> of the (noise-reduced) sound, or the
  exception raised on the way there; the \<^verbatim>\<open>except\<close> clause returns the empty list.
  \<^verbatim>\<open>times[-1]\<close> of an empty list is an IndexError, caught in the same way.
\<close>

definition analyze_silences :: "error + real list \<times> real list \<Rightarrow> real \<Rightarrow> real \<Rightarrow> interval list" where
  "analyze_silences contour silence_threshold min_silence_duration =
     (case contour of
        Inl e \<Rightarrow> []
      | Inr (times', intensity_values) \<Rightarrow>
          (case silence_loop silence_threshold min_silence_duration
                  (zip times' intensity_values) [] None of
             (silences, Some (start, None)) \<Rightarrow>
               (if times' = [] then []
                else if last times' - start \<ge> min_silence_duration
                     then silences @ [(start, last times')]
                     else silences)
           | (silences, _) \<Rightarrow> silences))"

text \<open>
  The same detector written from the wording of the specification: an interval opens at
  the first frame below the threshold, closes at the next frame at or above it, or at
  the last timestamp when the scan ends first; the intervals that reach the minimum
  duration are kept.
\<close>

function below_runs :: "real \<Rightarrow> real \<Rightarrow> (real \<times> real) list \<Rightarrow> interval list" where
  "below_runs thr t_last frames =
     (case dropWhile (\<lambda>(t, v). \<not> v < thr) frames of
        [] \<Rightarrow> []
      | (t0, v0) # rest \<Rightarrow>
          (case dropWhile (\<lambda>(t, v). v < thr) rest of
             [] \<Rightarrow> [(t0, t_last)]
           | (t1, v1) # rest' \<Rightarrow> (t0, t1) # below_runs thr t_last rest'))"
  by pat_completeness auto
termination
  apply (relation "measure (\<lambda>(thr, t_last, frames). length frames)")
   apply simp
  subgoal for thr t_last frames x21 x22 x y x21a x22a xa ya
    using length_dropWhile_le[of "\<lambda>(t, v). \<not> v < thr" frames]
          length_dropWhile_le[of "\<lambda>(t, v). v < thr" x22]
    by simp
  done

declare below_runs.simps [simp del]

definition silence_spec :: "real list \<Rightarrow> real list \<Rightarrow> real \<Rightarrow> real \<Rightarrow> interval list" where
  "silence_spec times' intensity_values thr min_dur =
     filter (\<lambda>(s, e). e - s \<ge> min_dur)
       (below_runs thr (last times') (zip times' intensity_values))"

text \<open>
  \<^verbatim>\<open>classify_silences\<close>. \<^verbatim>\<open>max(..., default=0)\<close> is \<open>py_max_default\<close>;
  \<open>initial_delay\<close> is the start of the first interval when that start is 0, and 0
  otherwise, as line 107 has it.
\<close>

fun py_max_default :: "real list \<Rightarrow> real \<Rightarrow> real" where
  "py_max_default [] d = d"
| "py_max_default (x # xs) d = fold max xs x"

definition classify_silences :: "interval list \<Rightarrow> real \<Rightarrow> real \<Rightarrow> real \<Rightarrow> string" where
  "classify_silences silences total_duration_threshold initial_delay_threshold long_silence_threshold =
     (if silences = [] then ''normal''
      else
        (let total_silence_duration = sum_list (map (\<lambda>(start, end). end - start) silences);
             longest_silence = py_max_default (map (\<lambda>(start, end). end - start) silences) 0;
             initial_delay = (if silences \<noteq> [] \<and> fst (silences ! 0) = 0 then fst (silences ! 0) else 0)
         in if longest_silence \<ge> long_silence_threshold then ''silence too long''
            else if total_silence_duration > total_duration_threshold then ''too much silence''
            else if initial_delay \<ge> initial_delay_threshold then ''delay''
            else ''normal''))"

section \<open>Segments\<close>

text \<open>
  A segment is the part of the sound that \<^verbatim>\<open>extract_part\<close> returns, with the
  start and the end of its time domain.
\<close>

record segment =
  xmin :: real
  xmax :: real

text \<open>
  The segmenter computes its start and end times in floats, and which of them coincide
  with the duration depends on the rounding. The argument \<open>fl\<close> of the next three
  functions is the rounding of a real number to a float (it leaves a float as it is):
  the float quotient of \<open>a\<close> and \<open>b\<close> is \<open>fl (a / b)\<close>, and so on.

  \<^verbatim>\<open>np.arange(0, stop, step)\<close>: numpy takes \<open>ceil\<close> of the float quotient
  \<^verbatim>\<open>stop / step\<close> as the number of values (none when that is not positive) and the
  float products \<open>i * step\<close> as the values; a step of 0 raises.
\<close>

definition np_arange :: "(real \<Rightarrow> real) \<Rightarrow> real \<Rightarrow> real \<Rightarrow> error + real list" where
  "np_arange fl stop step =
     (if step = 0 then Inl LibraryError
      else Inr (map (\<lambda>i. fl (real i * step)) [0..<nat \<lceil>fl (stop / step)\<rceil>]))"

text \<open>
  The loop of \<^verbatim>\<open>segment_audio\<close> over the start times. The argument
  \<open>extract_part\<close> is
  \<^verbatim>\<open>sound.extract_part(from_time=..., to_time=..., preserve_times=True)\<close> of the
  sound at hand: for a window it gives the exception Praat raises, or the segment Praat
  returns, whose time domain need not be the window asked for.
\<close>

fun segment_loop ::
  "(real \<Rightarrow> real) \<Rightarrow> (real \<Rightarrow> real \<Rightarrow> error + segment) \<Rightarrow> real \<Rightarrow> real \<Rightarrow> real list
     \<Rightarrow> segment list \<Rightarrow> error + segment list" where
  "segment_loop fl extract_part duration segment_length [] segments = Inr segments"
| "segment_loop fl extract_part duration segment_length (start_time # rest) segments =
     (let end_time = fl (start_time + segment_length);
          end_time = (if end_time > duration then duration else end_time)
      in case extract_part start_time end_time of
           Inl e \<Rightarrow> Inl e
         | Inr seg \<Rightarrow>
             segment_loop fl extract_part duration segment_length rest (segments @ [seg]))"

text \<open>
  \<^verbatim>\<open>segment_audio\<close>; \<open>duration\<close> is \<^verbatim>\<open>sound.duration\<close>. An exception anywhere
  in the body, one of \<^verbatim>\<open>extract_part\<close> included, makes the result the empty list.
\<close>

definition segment_audio ::
  "(real \<Rightarrow> real) \<Rightarrow> (real \<Rightarrow> real \<Rightarrow> error + segment) \<Rightarrow> real \<Rightarrow> real \<Rightarrow> segment list" where
  "segment_audio fl extract_part duration segment_length =
     (case np_arange fl duration segment_length of
        Inl e \<Rightarrow> []
      | Inr starts \<Rightarrow>
          (case segment_loop fl extract_part duration segment_length starts [] of
             Inl e \<Rightarrow> []
           | Inr segments \<Rightarrow> segments))"

text \<open>
  The window of one pass of the loop when nothing is rounded: it ends one segment length
  after its start, or at the end of the sound if that comes first.
\<close>

definition window :: "real \<Rightarrow> real \<Rightarrow> real \<Rightarrow> segment" where
  "window duration segment_length start_time =
     \<lparr>xmin = start_time,
      xmax = (if start_time + segment_length > duration then duration
              else start_time + segment_length)\<rparr>"

section \<open>Segment scores and temporary files\<close>

text \<open>
  The files the scoring functions touch: whether \<^verbatim>\<open>script_content.praat\<close> can be
  opened, the temporary files now on disk, and how many have been created (a temporary
  file is named by its number).
\<close>

record files =
  script_present :: bool
  temp_files :: "nat list"
  created :: nat

text \<open>\<^verbatim>\<open>tempfile.NamedTemporaryFile(..., delete=False)\<close>: a new file that stays on disk.\<close>

definition named_temporary_file :: "files \<Rightarrow> nat \<times> files" where
  "named_temporary_file fs =
     (created fs, fs\<lparr>temp_files := temp_files fs @ [created fs], created := Suc (created fs)\<rparr>)"

definition os_remove :: "nat \<Rightarrow> files \<Rightarrow> files" where
  "os_remove path fs = fs\<lparr>temp_files := removeAll path (temp_files fs)\<rparr>"

text \<open>
  \<^verbatim>\<open>analyze_segment\<close>. The argument \<open>run\<close> is what saving the segment and running
  the Praat script on it gives: the exception of \<^verbatim>\<open>segment.save\<close> or
  \<^verbatim>\<open>run_file\<close>, or the token list \<^verbatim>\<open>str(objects[1]).strip().split()\<close>. Both
  temporary files are created before the script runs, and both removals come after it.
\<close>

definition analyze_segment ::
  "error + string list \<Rightarrow> files \<Rightarrow> (error + string list option) \<times> files" where
  "analyze_segment run fs =
     (if \<not> script_present fs then (Inr None, fs)
      else
        (let (temp_script_path, fs1) = named_temporary_file fs;
             (audio_file_path, fs2) = named_temporary_file fs1
         in case run of
              Inl e \<Rightarrow> (Inl e, fs2)
            | Inr z2 \<Rightarrow>
                (Inr (Some z2), os_remove temp_script_path (os_remove audio_file_path fs2))))"

text \<open>\<^verbatim>\<open>z2[score_index]\<close>: a negative index counts from the end of the list.\<close>

definition py_index :: "'a list \<Rightarrow> int \<Rightarrow> error + 'a" where
  "py_index xs i =
     (if 0 \<le> i \<and> i < int (length xs) then Inr (xs ! nat i)
      else if i < 0 \<and> - i \<le> int (length xs) then Inr (xs ! nat (int (length xs) + i))
      else Inl IndexError)"

text \<open>
  The loop of \<^verbatim>\<open>average_score\<close> over the segments. \<open>float_of\<close> is Python's
  \<^verbatim>\<open>float\<close> on a token, \<open>None\<close> where it raises ValueError. \<^verbatim>\<open>len(z2)\<close> of
  \<^verbatim>\<open>None\<close> is a TypeError.
\<close>

fun score_loop ::
  "(string \<Rightarrow> real option) \<Rightarrow> int \<Rightarrow> (error + string list) list \<Rightarrow> real list \<Rightarrow> files
     \<Rightarrow> (error + real list) \<times> files" where
  "score_loop float_of score_index [] scores fs = (Inr scores, fs)"
| "score_loop float_of score_index (run # rest) scores fs =
     (case analyze_segment run fs of
        (Inl e, fs') \<Rightarrow> (Inl e, fs')
      | (Inr None, fs') \<Rightarrow> (Inl TypeError, fs')
      | (Inr (Some z2), fs') \<Rightarrow>
          (if int (length z2) > max 14 score_index then
             (case py_index z2 score_index of
                Inl e \<Rightarrow> (Inl e, fs')
              | Inr token \<Rightarrow>
                  (case float_of token of
                     None \<Rightarrow> (Inl ValueError, fs')
                   | Some x \<Rightarrow> score_loop float_of score_index rest (scores @ [x]) fs'))
           else score_loop float_of score_index rest scores fs'))"

text \<open>
  \<^verbatim>\<open>average_score\<close>. The argument \<open>audio\<close> is the exception of
  \<^verbatim>\<open>parselmouth.Sound(audio_file_path)\<close>, or one script run for each segment of the
  sound, in order. The result is the returned value, or the exception that leaves the
  function, with the files as they are at that moment.
\<close>

definition average_score ::
  "(string \<Rightarrow> real option) \<Rightarrow> error + (error + string list) list \<Rightarrow> int \<Rightarrow> files
     \<Rightarrow> (error + real option) \<times> files" where
  "average_score float_of audio score_index fs =
     (if \<not> script_present fs then (Inr None, fs)
      else
        (let (sourcerun, fs1) = named_temporary_file fs
         in case audio of
              Inl e \<Rightarrow> (Inl e, fs1)
            | Inr runs \<Rightarrow>
                (case score_loop float_of score_index runs [] fs1 of
                   (Inl e, fs2) \<Rightarrow> (Inl e, fs2)
                 | (Inr scores, fs2) \<Rightarrow>
                     if scores = [] then (Inr None, fs2)
                     else (Inr (Some (np_mean scores)), os_remove sourcerun fs2))))"

section \<open>Aggregation\<close>

definition calculate_score :: "real \<Rightarrow> real \<Rightarrow> real" where
  "calculate_score positive_criteria_count available_criteria_count =
     (if available_criteria_count = 0 then 0
      else (positive_criteria_count / available_criteria_count) * 100)"

text \<open>
  The report of \<^verbatim>\<open>perform_analysis\<close>: the dictionary \<^verbatim>\<open>analysis_results\<close>. The
  overall score is the bare number 0 in the initial dictionary and the dictionary
  \<^verbatim>\<open>{"score": overall_score}\<close> after the update.
\<close>

datatype overall = Bare real | Score real

record analysis_results =
  pitch :: string
  volume :: string
  silence :: string
  pronunciation :: "real option"
  articulation :: "real option"
  overall_score :: overall

definition initial_results :: analysis_results where
  "initial_results =
     \<lparr>pitch = ''Error: Analysis failed'',
      volume = ''Error: Analysis failed'',
      silence = ''Error: Analysis failed'',
      pronunciation = Some 0,
      articulation = Some 0,
      overall_score = Bare 0\<rparr>"

text \<open>
  Lines 88-92 of \<^verbatim>\<open>comcopilotapp.py\<close>. \<^verbatim>\<open>pronunciation_score * 1\<close> and
  \<^verbatim>\<open>articulation_rate >= 3\<close> are a TypeError when the operand is \<^verbatim>\<open>None\<close>.
\<close>

definition positive_criteria_count ::
  "string \<Rightarrow> string \<Rightarrow> string \<Rightarrow> real option \<Rightarrow> real option \<Rightarrow> error + real" where
  "positive_criteria_count pitch_result volume_result silence_result pronunciation_score
       articulation_rate =
     (case pronunciation_score of
        None \<Rightarrow> Inl TypeError
      | Some p \<Rightarrow>
          (case articulation_rate of
             None \<Rightarrow> Inl TypeError
           | Some a \<Rightarrow>
               Inr ((if pitch_result = ''Balanced'' then 1 else 0) +
                    (if volume_result = ''Volume is ideal'' then 1 else 0) +
                    (if silence_result = ''normal'' then 1 else 0) +
                    (p * 1) +
                    (if a \<ge> 3 then 1 else 0))))"

text \<open>
  \<^verbatim>\<open>perform_analysis\<close>. Its arguments are what the calls in its body give:
  \<open>sound\<close> for \<^verbatim>\<open>parselmouth.Sound(audio_file_path)\<close>, then the results of
  \<^verbatim>\<open>analyze_pitch\<close>, \<^verbatim>\<open>analyze_volume\<close>, \<^verbatim>\<open>analyze_silences\<close> and the two calls
  of \<^verbatim>\<open>average_score\<close> (index 14, then index 3). Any exception in the body is caught
  by the one \<^verbatim>\<open>except\<close> clause, which leaves the initial dictionary as it is.
\<close>

definition perform_analysis ::
  "error + unit \<Rightarrow> real option \<Rightarrow> error + string \<Rightarrow> interval list
     \<Rightarrow> error + real option \<Rightarrow> error + real option \<Rightarrow> analysis_results" where
  "perform_analysis sound pitch_analysis_result volume_analysis silences pronunciation_average
       articulation_average =
     (case sound of
        Inl e \<Rightarrow> initial_results
      | Inr u \<Rightarrow>
          (let pitch_result =
                 (case pitch_analysis_result of
                    None \<Rightarrow> ''Error: Pitch analysis failed''
                  | Some pitch_std_dev \<Rightarrow> classify_speaker (Some pitch_std_dev))
           in case volume_analysis of
                Inl e \<Rightarrow> initial_results
              | Inr volume_result \<Rightarrow>
                  (let silence_result = classify_silences silences 15 15 10
                   in case pronunciation_average of
                        Inl e \<Rightarrow> initial_results
                      | Inr pronunciation_score \<Rightarrow>
                          (case articulation_average of
                             Inl e \<Rightarrow> initial_results
                           | Inr articulation_rate \<Rightarrow>
                               (case positive_criteria_count pitch_result volume_result
                                       silence_result pronunciation_score articulation_rate of
                                  Inl e \<Rightarrow> initial_results
                                | Inr count \<Rightarrow>
                                    \<lparr>pitch = pitch_result,
                                     volume = volume_result,
                                     silence = silence_result,
                                     pronunciation = pronunciation_score,
                                     articulation = articulation_rate,
                                     overall_score = Score (calculate_score count 5)\<rparr>)))))"

section \<open>The overall score\<close>

text \<open>
  Claim C1. For non-negative \<open>positive_count\<close> and \<open>available_count\<close>, the score
  aggregation returns \<open>100 * positive_count / available_count\<close>, and 0 when
  \<open>available_count\<close> is 0. With pitch "Balanced", volume "Volume is ideal", silence
  "normal", pronunciation average 0.8 and articulation average 4, the positive count is
  4.8 (pronunciation contributes its average itself, each other criterion 0 or 1) and
  the overall score is 96. In the last conjunct the labels come out of the pipeline: a
  pitch deviation of 20 is "Balanced" and an empty silence list is "normal".
\<close>

theorem calculate_score_percentage:
  assumes "0 \<le> positive_count" and "0 \<le> available_count"
  shows "calculate_score positive_count available_count =
           (if available_count = 0 then 0 else 100 * positive_count / available_count)
         \<and> positive_criteria_count ''Balanced'' ''Volume is ideal'' ''normal''
               (Some (8 / 10)) (Some 4) = Inr (48 / 10)
         \<and> calculate_score (48 / 10) 5 = 96
         \<and> overall_score (perform_analysis (Inr ()) (Some 20) (Inr ''Volume is ideal'') []
               (Inr (Some (8 / 10))) (Inr (Some 4))) = Score 96"
proof -
  have ratio: "calculate_score positive_count available_count =
           (if available_count = 0 then 0 else 100 * positive_count / available_count)"
    by (simp add: calculate_score_def)
  have count: "positive_criteria_count ''Balanced'' ''Volume is ideal'' ''normal''
               (Some (8 / 10)) (Some 4) = Inr (48 / 10)"
    by (simp add: positive_criteria_count_def)
  have score: "calculate_score (48 / 10) 5 = 96"
    by (simp add: calculate_score_def)
  have balanced: "classify_speaker (Some 20) = ''Balanced''"
    by (simp add: classify_speaker_def)
  have normal: "classify_silences [] 15 15 10 = ''normal''"
    by (simp add: classify_silences_def)
  have "overall_score (perform_analysis (Inr ()) (Some 20) (Inr ''Volume is ideal'') []
               (Inr (Some (8 / 10))) (Inr (Some 4))) = Score 96"
    by (simp add: perform_analysis_def Let_def balanced normal positive_criteria_count_def
        calculate_score_def)
  with ratio count score show ?thesis by simp
qed

theorem calculate_score_percentage_witness:
  "(0::real) \<le> 3 \<and> (0::real) \<le> 4 \<and> calculate_score 3 4 = 75 \<and> calculate_score 3 0 = 0"
  using calculate_score_percentage [of 3 4] calculate_score_percentage [of 3 0]
  by simp

section \<open>Classification of silences\<close>

lemma py_max_default_ge: "x \<in> set xs \<Longrightarrow> x \<le> py_max_default xs d"
proof (cases xs)
  case Nil
  assume "x \<in> set xs"
  with Nil show ?thesis by simp
next
  case (Cons y ys)
  assume x: "x \<in> set xs"
  have "py_max_default xs d = Max (set (y # ys))"
    using Cons Max.set_eq_fold [of y ys] by simp
  moreover have "x \<le> Max (set (y # ys))"
    using x Cons by (intro Max_ge) auto
  ultimately show ?thesis by simp
qed

text \<open>
  Claim C4. A silence list that contains an interval of at least 10 s classifies as
  "silence too long", whatever the thresholds of the later checks are. The list with an
  interval of 12 s and a total of 20 s classifies as "silence too long", not as
  "too much silence", and the empty list classifies as "normal".
\<close>

theorem long_silence_has_priority:
  "((s, e) \<in> set silences \<and> e - s \<ge> 10 \<longrightarrow>
      classify_silences silences total_duration_threshold initial_delay_threshold 10
        = ''silence too long'')
   \<and> classify_silences [(0, 12), (20, 28)] 15 15 10 = ''silence too long''
   \<and> classify_silences [] total_duration_threshold initial_delay_threshold
        long_silence_threshold = ''normal''"
proof -
  have general: "classify_silences silences total_duration_threshold initial_delay_threshold 10
        = ''silence too long''" if mem: "(s, e) \<in> set silences" and long: "e - s \<ge> 10"
  proof -
    have ne: "silences \<noteq> []"
      using mem by auto
    have "e - s \<in> set (map (\<lambda>(start, end). end - start) silences)"
      using mem by force
    then have "e - s \<le> py_max_default (map (\<lambda>(start, end). end - start) silences) 0"
      by (rule py_max_default_ge)
    then have "10 \<le> py_max_default (map (\<lambda>(start, end). end - start) silences) 0"
      using long by linarith
    then show ?thesis
      using ne by (simp add: classify_silences_def Let_def)
  qed
  have twelve: "classify_silences [(0, 12), (20, 28)] 15 15 10 = ''silence too long''"
    by (simp add: classify_silences_def)
  have empty: "classify_silences [] total_duration_threshold initial_delay_threshold
        long_silence_threshold = ''normal''"
    by (simp add: classify_silences_def)
  from general twelve empty show ?thesis by blast
qed

theorem long_silence_has_priority_witness:
  "(3, 15) \<in> set [(3, 15), (16, 17 :: real)] \<and> (15::real) - 3 \<ge> 10
   \<and> classify_silences [(3, 15), (16, 17)] 15 15 10 = ''silence too long''"
  using long_silence_has_priority [of 3 15 "[(3, 15), (16, 17)]" 15 15]
  by simp

section \<open>Pitch analysis\<close>

text \<open>
  Claim C8. When the first channel is read and the pitch tracker returns a contour, the
  pitch analyzer keeps the voiced frames (above 0) between 75 and 400 Hz. If none is
  left, it returns \<^verbatim>\<open>None\<close>, which is not the number 0, and \<^verbatim>\<open>classify_speaker\<close>
  maps that result to "Unknown". Otherwise it returns the population standard deviation
  \<open>v\<close> of the kept frequencies, and \<^verbatim>\<open>classify_speaker\<close> maps it to "Balanced"
  exactly when \<open>10 \<le> v \<le> 60\<close>, and to "Unbalanced" exactly when not.
\<close>

theorem pitch_dispersion_and_label:
  assumes "first_channel sound_values = Inr channel"
    and "to_pitch sr channel = Inr pitch_values"
  shows "let voiced = filter (\<lambda>f. 0 < f \<and> 75 \<le> f \<and> f \<le> 400) pitch_values;
             result = analyze_pitch to_pitch (Inr (sr, sound_values))
         in (voiced = [] \<longrightarrow>
               result = None \<and> result \<noteq> Some 0 \<and> classify_speaker result = ''Unknown'')
          \<and> (voiced \<noteq> [] \<longrightarrow>
               result = Some (np_std voiced)
               \<and> (classify_speaker result = ''Balanced'')
                   = (10 \<le> np_std voiced \<and> np_std voiced \<le> 60)
               \<and> (classify_speaker result = ''Unbalanced'')
                   = (\<not> (10 \<le> np_std voiced \<and> np_std voiced \<le> 60)))"
  using assms by (simp add: analyze_pitch_def classify_speaker_def Let_def)

lemma np_std_100_140: "np_std [100, 140] = 20"
proof -
  have "sqrt 400 = sqrt (20\<^sup>2)" by simp
  also have "\<dots> = 20" by simp
  finally have "sqrt 400 = 20" .
  then show ?thesis by (simp add: np_std_def np_mean_def)
qed

theorem pitch_dispersion_and_label_witness:
  "first_channel (Mono [1, 2]) = Inr [1, 2]
   \<and> analyze_pitch (\<lambda>sr xs. Inr [100, 140, 0, 500]) (Inr (16000, Mono [1, 2])) = Some 20
   \<and> classify_speaker (analyze_pitch (\<lambda>sr xs. Inr [100, 140, 0, 500]) (Inr (16000, Mono [1, 2])))
       = ''Balanced''"
  using pitch_dispersion_and_label [of "Mono [1, 2]" "[1, 2]" "\<lambda>sr xs. Inr [100, 140, 0, 500]" 16000
      "[100, 140, 0, 500]"]
  by (simp add: np_std_100_140 Let_def classify_speaker_def)

text \<open>
  Claim C10. Two multi-channel inputs with the same sample rate and the same first
  channel (column 0 of the sample array, frame by frame) give the same result of the
  pitch analyzer, whatever the other channels hold and however many there are.
\<close>

theorem pitch_reads_first_channel_only:
  assumes "length rows_a = length rows_b"
    and "\<forall>i < length rows_a. rows_a ! i ! 0 = rows_b ! i ! 0"
    and "0 < channels_a" and "0 < channels_b"
  shows "analyze_pitch to_pitch (Inr (sr, Multi channels_a rows_a))
           = analyze_pitch to_pitch (Inr (sr, Multi channels_b rows_b))"
proof -
  have "map (\<lambda>row. row ! 0) rows_a = map (\<lambda>row. row ! 0) rows_b"
    using assms(1,2) by (simp add: list_eq_iff_nth_eq)
  then have "first_channel (Multi channels_a rows_a) = first_channel (Multi channels_b rows_b)"
    using assms(3,4) by simp
  then show ?thesis
    by (simp add: analyze_pitch_def)
qed

theorem pitch_reads_first_channel_only_witness:
  "length [[100, 7], [200, 8 :: int]] = length [[100, -3, 5], [200, 0, 6 :: int]]
   \<and> [[100, 7], [200, 8 :: int]] ! 0 ! 0 = [[100, -3, 5], [200, 0, 6]] ! 0 ! 0
   \<and> [[100, 7], [200, 8 :: int]] ! 1 ! 0 = [[100, -3, 5], [200, 0, 6]] ! 1 ! 0
   \<and> analyze_pitch (\<lambda>sr xs. Inr (map real_of_int xs)) (Inr (8000, Multi 2 [[100, 7], [200, 8]]))
       = analyze_pitch (\<lambda>sr xs. Inr (map real_of_int xs))
           (Inr (8000, Multi 3 [[100, -3, 5], [200, 0, 6]]))"
  using pitch_reads_first_channel_only [of "[[100, 7], [200, 8]]" "[[100, -3, 5], [200, 0, 6]]" 2 3
      "\<lambda>sr xs. Inr (map real_of_int xs)" 8000]
  by (simp add: less_Suc_eq)

section \<open>Missing averages\<close>

text \<open>
  Claim C2 says that an average that is \<^verbatim>\<open>None\<close> does not make the aggregation
  raise, that it counts as 0, and that the other criteria keep their results. The code
  is evaluated where the script file is missing, so that \<^verbatim>\<open>average_score\<close> returns
  \<^verbatim>\<open>None\<close>: the sum of lines 88-92 is a TypeError for a missing pronunciation
  average and for a missing articulation average, and the report that
  \<^verbatim>\<open>perform_analysis\<close> returns is the initial dictionary, in which pitch, volume and
  silence read "Error: Analysis failed", although the pitch label had been computed as
  "Balanced" (the last conjunct shows it in the report when both averages are numbers).
\<close>

theorem missing_average_discards_report:
  "fst (average_score float_of audio 14 \<lparr>script_present = False, temp_files = [], created = 0\<rparr>)
     = Inr None
   \<and> positive_criteria_count ''Balanced'' ''Volume is ideal'' ''normal'' None (Some 4)
     = Inl TypeError
   \<and> positive_criteria_count ''Balanced'' ''Volume is ideal'' ''normal'' (Some (8 / 10)) None
     = Inl TypeError
   \<and> perform_analysis (Inr ()) (Some 20) (Inr ''Volume is ideal'') [] (Inr None) (Inr (Some 4))
     = initial_results
   \<and> perform_analysis (Inr ()) (Some 20) (Inr ''Volume is ideal'') [] (Inr (Some (8 / 10))) (Inr None)
     = initial_results
   \<and> pitch initial_results = ''Error: Analysis failed''
   \<and> volume initial_results = ''Error: Analysis failed''
   \<and> silence initial_results = ''Error: Analysis failed''
   \<and> pitch (perform_analysis (Inr ()) (Some 20) (Inr ''Volume is ideal'') [] (Inr (Some (8 / 10)))
        (Inr (Some 4))) = ''Balanced''"
  by (simp add: average_score_def positive_criteria_count_def perform_analysis_def Let_def
      initial_results_def classify_speaker_def classify_silences_def)

section \<open>Segment scores\<close>

lemma analyze_segment_script_present:
  "script_present (snd (analyze_segment run fs)) = script_present fs"
  by (simp add: analyze_segment_def named_temporary_file_def os_remove_def Let_def
      split: sum.splits prod.splits)

lemma analyze_segment_tokens:
  "script_present fs \<Longrightarrow> fst (analyze_segment (Inr z2) fs) = Inr (Some z2)"
  by (simp add: analyze_segment_def named_temporary_file_def Let_def split: prod.splits)

lemma py_index_nonneg:
  "0 \<le> i \<Longrightarrow> int (length xs) > max 14 i \<Longrightarrow> py_index xs i = Inr (xs ! nat i)"
  by (simp add: py_index_def)

text \<open>
  The loop collects, in order, the parsed token of every measurement that is long
  enough, and passes over the others.
\<close>

lemma score_loop_accepts:
  assumes "script_present fs" and "0 \<le> score_index"
    and "\<forall>z \<in> set zs. int (length z) > max 14 score_index
            \<longrightarrow> float_of (z ! nat score_index) = Some (v z)"
  shows "fst (score_loop float_of score_index (map Inr zs) scores fs)
           = Inr (scores @ map v (filter (\<lambda>z. int (length z) > max 14 score_index) zs))"
  using assms
proof (induction zs arbitrary: scores fs)
  case Nil
  then show ?case by simp
next
  case (Cons z zs)
  obtain fs' where seg: "analyze_segment (Inr z) fs = (Inr (Some z), fs')"
    using analyze_segment_tokens [OF Cons.prems(1), of z]
    by (cases "analyze_segment (Inr z) fs") simp
  have present: "script_present fs'"
    using analyze_segment_script_present [of "Inr z" fs] seg Cons.prems(1) by simp
  have rest: "\<forall>z \<in> set zs. int (length z) > max 14 score_index
            \<longrightarrow> float_of (z ! nat score_index) = Some (v z)"
    using Cons.prems(3) by simp
  show ?case
  proof (cases "int (length z) > max 14 score_index")
    case True
    then have tok: "float_of (z ! nat score_index) = Some (v z)"
      using Cons.prems(3) by simp
    have idx: "py_index z score_index = Inr (z ! nat score_index)"
      using py_index_nonneg [OF Cons.prems(2) True] .
    show ?thesis
      using True seg tok idx Cons.IH [OF present Cons.prems(2) rest, of "scores @ [v z]"]
      by simp
  next
    case False
    then show ?thesis
      using seg Cons.IH [OF present Cons.prems(2) rest, of scores]
      by auto
  qed
qed

text \<open>
  Claim C6. Let the script file be present, the index not negative, and every script run
  return a token list. A token list enters the average only if it has more than
  \<open>max 14 score_index\<close> tokens; a shorter one adds no sample and raises nothing, whatever
  its tokens are (only the tokens read from the accepted lists are taken to parse as
  numbers, \<open>v z\<close> being the number read from the list \<open>z\<close>). The result is the
  mean of the accepted samples, and \<^verbatim>\<open>None\<close> when there is none. A single token
  list of length 10 at index 14 is left out: the result is \<^verbatim>\<open>None\<close>, not an
  exception. When the script file is missing, the averaging returns \<^verbatim>\<open>None\<close>
  whatever the audio is.
\<close>

theorem short_measurements_are_skipped:
  "(script_present fs \<and> 0 \<le> score_index
      \<and> (\<forall>z \<in> set zs. int (length z) > max 14 score_index
            \<longrightarrow> float_of (z ! nat score_index) = Some (v z))
     \<longrightarrow> fst (average_score float_of (Inr (map Inr zs)) score_index fs)
          = Inr (let accepted = filter (\<lambda>z. int (length z) > max 14 score_index) zs
                 in if accepted = [] then None else Some (np_mean (map v accepted))))
   \<and> fst (average_score float_of (Inr [Inr (replicate 10 ''0.5'')]) 14
          \<lparr>script_present = True, temp_files = [], created = 0\<rparr>) = Inr None
   \<and> (\<not> script_present fs \<longrightarrow> fst (average_score float_of audio score_index fs) = Inr None)"
proof -
  have general: "fst (average_score float_of (Inr (map Inr zs)) score_index fs)
          = Inr (let accepted = filter (\<lambda>z. int (length z) > max 14 score_index) zs
                 in if accepted = [] then None else Some (np_mean (map v accepted)))"
    if present: "script_present fs" and idx: "0 \<le> score_index"
      and parse: "\<forall>z \<in> set zs. int (length z) > max 14 score_index
            \<longrightarrow> float_of (z ! nat score_index) = Some (v z)"
  proof -
    obtain sourcerun fs1 where tmp: "named_temporary_file fs = (sourcerun, fs1)"
      by (cases "named_temporary_file fs")
    have present1: "script_present fs1"
      using tmp present by (auto simp: named_temporary_file_def)
    obtain r fs2 where loop: "score_loop float_of score_index (map Inr zs) [] fs1 = (r, fs2)"
      by (cases "score_loop float_of score_index (map Inr zs) [] fs1")
    have r: "r = Inr (map v (filter (\<lambda>z. int (length z) > max 14 score_index) zs))"
      using score_loop_accepts [OF present1 idx parse, of "[]"] loop by simp
    show ?thesis
      using present tmp loop r by (simp add: average_score_def Let_def)
  qed
  have ten: "fst (average_score float_of (Inr [Inr (replicate 10 ''0.5'')]) 14
          \<lparr>script_present = True, temp_files = [], created = 0\<rparr>) = Inr None"
    by (simp add: average_score_def analyze_segment_def named_temporary_file_def os_remove_def
        Let_def)
  have missing: "fst (average_score float_of audio score_index fs) = Inr None"
    if "\<not> script_present fs"
    using that by (simp add: average_score_def)
  from general ten missing show ?thesis by blast
qed

theorem short_measurements_are_skipped_witness:
  "script_present \<lparr>script_present = True, temp_files = [], created = 0\<rparr>
   \<and> (0::int) \<le> 14
   \<and> fst (average_score (\<lambda>t. if t = ''0.8'' then Some (8 / 10) else None)
        (Inr [Inr (replicate 10 ''x''), Inr (replicate 15 ''0.8'')]) 14
        \<lparr>script_present = True, temp_files = [], created = 0\<rparr>) = Inr (Some (8 / 10))
   \<and> \<not> script_present \<lparr>script_present = False, temp_files = [], created = 0\<rparr>
   \<and> fst (average_score (\<lambda>t. None) (Inr []) 14
        \<lparr>script_present = False, temp_files = [], created = 0\<rparr>) = Inr None"
  using short_measurements_are_skipped [of "\<lparr>script_present = True, temp_files = [], created = 0\<rparr>"
      14 "[replicate 10 ''x'', replicate 15 ''0.8'']"
      "\<lambda>t. if t = ''0.8'' then Some (8 / 10) else None" "\<lambda>z. 8 / 10"]
    short_measurements_are_skipped [of "\<lparr>script_present = False, temp_files = [], created = 0\<rparr>"
      14 "[]" "\<lambda>t. None" "\<lambda>z. 0" "Inr []"]
  by (simp add: np_mean_def)

section \<open>Temporary files\<close>

text \<open>
  Claim C9 says that every temporary file of the segment scoring is deleted before the
  operation returns, on every exit path. The code is evaluated with the script present
  and no temporary file on disk. When the only segment gives ten tokens, so that no
  score is usable, \<^verbatim>\<open>average_score\<close> returns \<^verbatim>\<open>None\<close> from line 174, before the
  \<^verbatim>\<open>os.remove(sourcerun)\<close> of line 176, and its temporary script (file 0) stays on
  disk. When the script run raises, the exception leaves \<^verbatim>\<open>analyze_segment\<close> before
  either of its removals, and \<^verbatim>\<open>average_score\<close> after it: all three temporary files
  stay. When the segment gives a usable score, no temporary file is left.
\<close>

theorem early_return_leaves_temp_file:
  "average_score float_of (Inr [Inr (replicate 10 ''0'')]) 14
       \<lparr>script_present = True, temp_files = [], created = 0\<rparr>
     = (Inr None, \<lparr>script_present = True, temp_files = [0], created = 3\<rparr>)
   \<and> average_score float_of (Inr [Inl LibraryError]) 14
       \<lparr>script_present = True, temp_files = [], created = 0\<rparr>
     = (Inl LibraryError, \<lparr>script_present = True, temp_files = [0, 1, 2], created = 3\<rparr>)
   \<and> average_score (\<lambda>t. Some 1) (Inr [Inr (replicate 15 ''0'')]) 14
       \<lparr>script_present = True, temp_files = [], created = 0\<rparr>
     = (Inr (Some 1), \<lparr>script_present = True, temp_files = [], created = 3\<rparr>)"
  by (simp add: average_score_def analyze_segment_def named_temporary_file_def os_remove_def
      py_index_def np_mean_def Let_def)

section \<open>Segmentation\<close>

lemma segment_loop_windows:
  assumes "\<forall>st \<in> set starts. fl (st + segment_length) = st + segment_length
             \<and> extract_part st (xmax (window duration segment_length st))
                 = Inr (window duration segment_length st)"
  shows "segment_loop fl extract_part duration segment_length starts segments
           = Inr (segments @ map (window duration segment_length) starts)"
  using assms
proof (induction starts arbitrary: segments)
  case Nil
  then show ?case by simp
next
  case (Cons st starts)
  have exact: "fl (st + segment_length) = st + segment_length"
    and ext: "extract_part st (xmax (window duration segment_length st))
          = Inr (window duration segment_length st)"
    using Cons.prems by simp_all
  have "extract_part st (if st + segment_length > duration then duration
                         else st + segment_length) = Inr (window duration segment_length st)"
    using ext by (simp add: window_def)
  then show ?case
    using Cons exact by (simp add: Let_def)
qed

lemma segment_loop_raises:
  assumes "st \<in> set starts"
    and "extract_part st (if fl (st + segment_length) > duration then duration
                          else fl (st + segment_length)) = Inl err"
  shows "\<exists>e. segment_loop fl extract_part duration segment_length starts segments = Inl e"
  using assms(1)
proof (induction starts arbitrary: segments)
  case Nil
  then show ?case by simp
next
  case (Cons s starts)
  show ?case
  proof (cases "extract_part s (if fl (s + segment_length) > duration then duration
                          else fl (s + segment_length))")
    case (Inl e)
    then show ?thesis by (simp add: Let_def)
  next
    case (Inr seg)
    then have "st \<noteq> s"
      using assms(2) by auto
    then have "st \<in> set starts"
      using Cons.prems by simp
    then show ?thesis
      using Cons.IH [of "segments @ [seg]"] Inr by (simp add: Let_def)
  qed
qed

lemma segment_audio_raises:
  assumes "np_arange fl duration segment_length = Inr starts"
    and "st \<in> set starts"
    and "extract_part st (if fl (st + segment_length) > duration then duration
                          else fl (st + segment_length)) = Inl err"
  shows "segment_audio fl extract_part duration segment_length = []"
proof -
  obtain e where "segment_loop fl extract_part duration segment_length starts [] = Inl e"
    using segment_loop_raises [where st = st and starts = starts and extract_part = extract_part
        and fl = fl and segment_length = segment_length and duration = duration and err = err
        and segments = "[]"] assms(2,3)
    by blast
  then show ?thesis
    using assms(1) by (simp add: segment_audio_def)
qed

lemma count_bounds:
  assumes "0 < duration" and "0 < segment_length"
  shows "real (nat \<lceil>duration / segment_length\<rceil>) * segment_length \<ge> duration"
    and "i < nat \<lceil>duration / segment_length\<rceil> \<Longrightarrow> real i * segment_length < duration"
    and "0 < nat \<lceil>duration / segment_length\<rceil>"
proof -
  let ?q = "duration / segment_length"
  have q: "0 < ?q" using assms by simp
  then have c: "0 < \<lceil>?q\<rceil>" by linarith
  then show "0 < nat \<lceil>?q\<rceil>" by simp
  have "?q \<le> real_of_int \<lceil>?q\<rceil>" by linarith
  also have "\<dots> = real (nat \<lceil>?q\<rceil>)" using c by simp
  finally have "?q \<le> real (nat \<lceil>?q\<rceil>)" .
  then show "real (nat \<lceil>?q\<rceil>) * segment_length \<ge> duration"
    using assms(2) by (simp add: pos_divide_le_eq)
  show "real i * segment_length < duration" if "i < nat \<lceil>?q\<rceil>"
  proof -
    have "int i < \<lceil>?q\<rceil>" using that by linarith
    then have "real i < ?q" by linarith
    then show ?thesis using assms(2) by (simp add: pos_less_divide_eq)
  qed
qed

lemma segment_audio_windows:
  assumes "0 < duration" and "0 < segment_length"
    and count: "\<lceil>fl (duration / segment_length)\<rceil> = \<lceil>duration / segment_length\<rceil>"
    and exact: "\<forall>i. i \<le> nat \<lceil>duration / segment_length\<rceil>
                  \<longrightarrow> fl (real i * segment_length) = real i * segment_length"
    and ext: "\<forall>i. i < nat \<lceil>duration / segment_length\<rceil>
                  \<longrightarrow> extract_part (real i * segment_length)
                        (min (real i * segment_length + segment_length) duration)
                      = Inr \<lparr>xmin = real i * segment_length,
                             xmax = min (real i * segment_length + segment_length) duration\<rparr>"
  shows "segment_audio fl extract_part duration segment_length
           = map (\<lambda>i. window duration segment_length (real i * segment_length))
               [0..<nat \<lceil>duration / segment_length\<rceil>]"
proof -
  let ?n = "nat \<lceil>duration / segment_length\<rceil>"
  let ?starts = "map (\<lambda>i. real i * segment_length) [0..<?n]"
  have starts: "np_arange fl duration segment_length = Inr ?starts"
    using assms(2) count exact by (simp add: np_arange_def)
  have "\<forall>st \<in> set ?starts. fl (st + segment_length) = st + segment_length
             \<and> extract_part st (xmax (window duration segment_length st))
                 = Inr (window duration segment_length st)"
  proof
    fix st assume "st \<in> set ?starts"
    then obtain i where i: "i < ?n" and st: "st = real i * segment_length" by auto
    have "fl (real (Suc i) * segment_length) = real (Suc i) * segment_length"
      using exact i by (simp del: of_nat_Suc)
    then have a: "fl (st + segment_length) = st + segment_length"
      by (simp add: st algebra_simps)
    have w: "window duration segment_length x
          = \<lparr>xmin = x, xmax = min (x + segment_length) duration\<rparr>" for x
      by (simp add: window_def min_def)
    have "extract_part (real i * segment_length)
                        (min (real i * segment_length + segment_length) duration)
                      = Inr \<lparr>xmin = real i * segment_length,
                             xmax = min (real i * segment_length + segment_length) duration\<rparr>"
      using ext i by blast
    then have "extract_part st (xmax (window duration segment_length st))
                 = Inr (window duration segment_length st)"
      by (simp add: w st)
    with a show "fl (st + segment_length) = st + segment_length
             \<and> extract_part st (xmax (window duration segment_length st))
                 = Inr (window duration segment_length st)" by simp
  qed
  then have "segment_loop fl extract_part duration segment_length ?starts []
           = Inr (map (window duration segment_length) ?starts)"
    using segment_loop_windows [of ?starts fl segment_length extract_part duration "[]"] by simp
  then show ?thesis
    using starts by (simp add: segment_audio_def comp_def)
qed


lemma window_sum:
  assumes "0 < duration" and "0 < segment_length"
  shows "sum_list (map (\<lambda>s. xmax s - xmin s)
           (map (\<lambda>i. window duration segment_length (real i * segment_length))
               [0..<nat \<lceil>duration / segment_length\<rceil>])) = duration"
proof -
  let ?n = "nat \<lceil>duration / segment_length\<rceil>"
  let ?f = "\<lambda>i. min (real i * segment_length) duration"
  have eq: "xmax (window duration segment_length (real i * segment_length))
          - xmin (window duration segment_length (real i * segment_length)) = ?f (Suc i) - ?f i"
    if "i < ?n" for i
    using count_bounds(2) [OF assms that] by (simp add: window_def min_def algebra_simps)
  have "sum_list (map (\<lambda>s. xmax s - xmin s)
           (map (\<lambda>i. window duration segment_length (real i * segment_length)) [0..<?n]))
        = (\<Sum>i<?n. xmax (window duration segment_length (real i * segment_length))
          - xmin (window duration segment_length (real i * segment_length)))"
    by (simp add: interv_sum_list_conv_sum_set_nat comp_def atLeast0LessThan)
  also have "\<dots> = (\<Sum>i<?n. ?f (Suc i) - ?f i)"
    using eq by (intro sum.cong) auto
  also have "\<dots> = ?f ?n - ?f 0"
    by (rule sum_lessThan_telescope)
  also have "\<dots> = duration"
    using count_bounds(1) [OF assms] assms(1) by (simp add: min_def)
  finally show ?thesis .
qed

text \<open>
  Claim C7 as it is stated does not hold of the code: take
  a sound of 1 s sampled at 8000 Hz, cut into segments of \<open>1 / 16384\<close> s. Every
  float operation of the segmenter is exact here (the numbers are multiples of a power
  of two), so the rounding is the identity. Praat raises for a window that holds no
  sample, and the samples are at the times \<open>(k + 1 / 2) / 8000\<close>. The first window
  ends before the first sample, so the call raises, the \<^verbatim>\<open>except\<close> clause returns
  the empty list, and the segment durations add up to 0, not to the duration 1.
\<close>

theorem segments_lost_when_extraction_raises:
  "segment_audio (\<lambda>x. x)
       (\<lambda>a b. if \<lfloor>8000 * b - 1 / 2\<rfloor> < \<lceil>8000 * a - 1 / 2\<rceil> then Inl LibraryError
              else Inr \<lparr>xmin = a, xmax = b\<rparr>)
       1 (1 / 16384) = []
   \<and> sum_list (map (\<lambda>s. xmax s - xmin s)
        (segment_audio (\<lambda>x. x)
           (\<lambda>a b. if \<lfloor>8000 * b - 1 / 2\<rfloor> < \<lceil>8000 * a - 1 / 2\<rceil> then Inl LibraryError
                  else Inr \<lparr>xmin = a, xmax = b\<rparr>)
           1 (1 / 16384))) \<noteq> 1"
proof -
  let ?praat = "\<lambda>a b :: real. if \<lfloor>8000 * b - 1 / 2\<rfloor> < \<lceil>8000 * a - 1 / 2\<rceil>
                    then Inl LibraryError else Inr \<lparr>xmin = a, xmax = b\<rparr>"
  have starts: "np_arange (\<lambda>x. x) 1 (1 / 16384)
            = Inr (map (\<lambda>i. real i * (1 / 16384)) [0..<16384])"
    by (simp add: np_arange_def)
  have "(\<lambda>i. real i * (1 / 16384)) 0 \<in> (\<lambda>i. real i * (1 / 16384)) ` {0..<16384}"
    by (rule imageI) simp
  then have first: "(0::real) \<in> set (map (\<lambda>i. real i * (1 / 16384)) [0..<16384])"
    by simp
  have "\<lfloor>8000 * (1 / 16384) - 1 / 2 :: real\<rfloor> = - 1"
    by (simp add: floor_eq_iff)
  moreover have "\<lceil>8000 * 0 - 1 / 2 :: real\<rceil> = 0"
    by (simp add: ceiling_eq_iff)
  ultimately have raises: "?praat 0 (if (\<lambda>x. x) (0 + 1 / 16384) > (1::real) then 1
                            else (\<lambda>x. x) (0 + 1 / 16384)) = Inl LibraryError"
    by simp
  have empty: "segment_audio (\<lambda>x. x) ?praat 1 (1 / 16384) = []"
    using segment_audio_raises [where fl = "\<lambda>x. x" and extract_part = ?praat
        and duration = 1 and segment_length = "1 / 16384", OF starts first raises] .
  then show ?thesis by simp
qed

text \<open>
  Claim C7, amended. Take a sound of positive duration and a positive segment length
  for which the floats of the segmenter are exact (numpy's count is
  \<open>ceil (duration / segment_length)\<close> and the products \<open>i * segment_length\<close> up to
  that count are not rounded) and for which \<^verbatim>\<open>extract_part\<close> returns each window
  asked for. Then the segmenter returns \<open>ceil (duration / segment_length)\<close> segments,
  at least one. Segment \<open>i\<close> starts at \<open>i * segment_length\<close>; the first starts at 0
  and the last ends at the duration; each segment but the last ends where the next one
  starts and is exactly one segment length long; every segment is non-empty and at most
  one segment length long; and the segment durations add up to the duration. Whatever
  the rounding is, the result is the empty list as soon as \<^verbatim>\<open>extract_part\<close> raises
  for the window of one start time, and a sound of duration 0 gives the empty list. The
  result is a function of the duration, the segment length and what \<^verbatim>\<open>extract_part\<close>
  returns, so two runs on the same sound give the same boundaries.
\<close>

theorem segments_cover_duration:
  "(0 < duration \<and> 0 < segment_length
      \<and> \<lceil>fl (duration / segment_length)\<rceil> = \<lceil>duration / segment_length\<rceil>
      \<and> (\<forall>i. i \<le> nat \<lceil>duration / segment_length\<rceil>
              \<longrightarrow> fl (real i * segment_length) = real i * segment_length)
      \<and> (\<forall>i. i < nat \<lceil>duration / segment_length\<rceil>
              \<longrightarrow> extract_part (real i * segment_length)
                    (min (real i * segment_length + segment_length) duration)
                  = Inr \<lparr>xmin = real i * segment_length,
                         xmax = min (real i * segment_length + segment_length) duration\<rparr>)
     \<longrightarrow>
      (let segs = segment_audio fl extract_part duration segment_length; n = length segs
       in n = nat \<lceil>duration / segment_length\<rceil> \<and> 0 < n
          \<and> xmin (segs ! 0) = 0
          \<and> xmax (segs ! (n - 1)) = duration
          \<and> (\<forall>i. Suc i < n \<longrightarrow>
                xmax (segs ! i) = xmin (segs ! Suc i)
                \<and> xmax (segs ! i) - xmin (segs ! i) = segment_length)
          \<and> (\<forall>i < n. xmin (segs ! i) = real i * segment_length
                \<and> xmin (segs ! i) < xmax (segs ! i)
                \<and> xmax (segs ! i) - xmin (segs ! i) \<le> segment_length)
          \<and> sum_list (map (\<lambda>s. xmax s - xmin s) segs) = duration))
   \<and> (np_arange fl duration segment_length = Inr starts \<and> start_time \<in> set starts
        \<and> extract_part start_time
             (if fl (start_time + segment_length) > duration then duration
              else fl (start_time + segment_length)) = Inl err
      \<longrightarrow> segment_audio fl extract_part duration segment_length = [])
   \<and> (fl 0 = 0 \<longrightarrow> segment_audio fl extract_part 0 segment_length = [])"
proof -
  have zero: "segment_audio fl extract_part 0 segment_length = []" if "fl 0 = 0"
    using that by (simp add: segment_audio_def np_arange_def)
  have raised: "segment_audio fl extract_part duration segment_length = []"
    if "np_arange fl duration segment_length = Inr starts" and "start_time \<in> set starts"
      and "extract_part start_time
             (if fl (start_time + segment_length) > duration then duration
              else fl (start_time + segment_length)) = Inl err"
    using segment_audio_raises [where fl = fl and extract_part = extract_part
        and duration = duration and segment_length = segment_length, OF that] .
  have pos: "(let segs = segment_audio fl extract_part duration segment_length; n = length segs
       in n = nat \<lceil>duration / segment_length\<rceil> \<and> 0 < n
          \<and> xmin (segs ! 0) = 0
          \<and> xmax (segs ! (n - 1)) = duration
          \<and> (\<forall>i. Suc i < n \<longrightarrow>
                xmax (segs ! i) = xmin (segs ! Suc i)
                \<and> xmax (segs ! i) - xmin (segs ! i) = segment_length)
          \<and> (\<forall>i < n. xmin (segs ! i) = real i * segment_length
                \<and> xmin (segs ! i) < xmax (segs ! i)
                \<and> xmax (segs ! i) - xmin (segs ! i) \<le> segment_length)
          \<and> sum_list (map (\<lambda>s. xmax s - xmin s) segs) = duration)"
    if d: "0 < duration" and l: "0 < segment_length"
      and count: "\<lceil>fl (duration / segment_length)\<rceil> = \<lceil>duration / segment_length\<rceil>"
      and exact: "\<forall>i. i \<le> nat \<lceil>duration / segment_length\<rceil>
              \<longrightarrow> fl (real i * segment_length) = real i * segment_length"
      and ext: "\<forall>i. i < nat \<lceil>duration / segment_length\<rceil>
              \<longrightarrow> extract_part (real i * segment_length)
                    (min (real i * segment_length + segment_length) duration)
                  = Inr \<lparr>xmin = real i * segment_length,
                         xmax = min (real i * segment_length + segment_length) duration\<rparr>"
  proof -
    let ?n = "nat \<lceil>duration / segment_length\<rceil>"
    let ?segs = "segment_audio fl extract_part duration segment_length"
    have segs: "?segs = map (\<lambda>i. window duration segment_length (real i * segment_length)) [0..<?n]"
      using segment_audio_windows [where fl = fl and extract_part = extract_part
          and duration = duration and segment_length = segment_length, OF d l count exact ext] .
    have len: "length ?segs = ?n"
      using segs by simp
    have nth: "?segs ! i = window duration segment_length (real i * segment_length)"
      if "i < ?n" for i
      using that segs by simp
    have npos: "0 < ?n"
      using count_bounds(3) [OF d l] .
    have first: "xmin (?segs ! 0) = 0"
      using nth [OF npos] by (simp add: window_def)
    have last: "xmax (?segs ! (?n - 1)) = duration"
    proof -
      define n where "n = ?n"
      obtain m where m: "n = Suc m"
        using npos unfolding n_def by (cases "nat \<lceil>duration / segment_length\<rceil>") auto
      have "real n * segment_length \<ge> duration"
        using count_bounds(1) [OF d l] by (simp add: n_def)
      then have "real m * segment_length + segment_length \<ge> duration"
        using m by (simp add: algebra_simps)
      moreover have "?segs ! m = window duration segment_length (real m * segment_length)"
        using nth [of m] m n_def by simp
      ultimately have "xmax (?segs ! m) = duration"
        by (simp add: window_def)
      then show ?thesis
        using m n_def by simp
    qed
    have inner: "xmax (?segs ! i) = xmin (?segs ! Suc i)
                \<and> xmax (?segs ! i) - xmin (?segs ! i) = segment_length"
      if "Suc i < ?n" for i
    proof -
      have "real (Suc i) * segment_length < duration"
        using count_bounds(2) [OF d l that] .
      then have "\<not> real i * segment_length + segment_length > duration"
        by (simp add: algebra_simps)
      then show ?thesis
        using nth [of i] nth [OF that] that by (simp add: window_def algebra_simps)
    qed
    have each: "xmin (?segs ! i) = real i * segment_length
                \<and> xmin (?segs ! i) < xmax (?segs ! i)
                \<and> xmax (?segs ! i) - xmin (?segs ! i) \<le> segment_length"
      if "i < ?n" for i
      using nth [OF that] count_bounds(2) [OF d l that] l by (simp add: window_def)
    have total: "sum_list (map (\<lambda>s. xmax s - xmin s) ?segs) = duration"
      using window_sum [OF d l] segs by simp
    from npos first last inner each total show ?thesis
      unfolding Let_def len by blast
  qed
  from zero raised pos show ?thesis by blast
qed

theorem segments_cover_duration_witness:
  "(0::real) < 37 \<and> (0::real) < 15
   \<and> segment_audio (\<lambda>x. x) (\<lambda>a b. Inr \<lparr>xmin = a, xmax = b\<rparr>) 37 15
       = [\<lparr>xmin = 0, xmax = 15\<rparr>, \<lparr>xmin = 15, xmax = 30\<rparr>, \<lparr>xmin = 30, xmax = 37\<rparr>]
   \<and> sum_list (map (\<lambda>s. xmax s - xmin s)
        (segment_audio (\<lambda>x. x) (\<lambda>a b. Inr \<lparr>xmin = a, xmax = b\<rparr>) 37 15)) = 37
   \<and> np_arange (\<lambda>x. x) 37 15 = Inr [0, 15, 30]
   \<and> segment_audio (\<lambda>x. x)
        (\<lambda>a b. if a = 15 then Inl LibraryError else Inr \<lparr>xmin = a, xmax = b\<rparr>) 37 15 = []"
proof -
  have starts: "np_arange (\<lambda>x. x) 37 15 = Inr [0, 15, 30]"
    by (simp add: np_arange_def upt_rec)
  have segs: "segment_audio (\<lambda>x. x) (\<lambda>a b. Inr \<lparr>xmin = a, xmax = b\<rparr>) 37 15
       = [\<lparr>xmin = 0, xmax = 15\<rparr>, \<lparr>xmin = 15, xmax = 30\<rparr>, \<lparr>xmin = 30, xmax = 37\<rparr>]"
    by (simp add: segment_audio_def starts Let_def)
  have total: "sum_list (map (\<lambda>s. xmax s - xmin s)
        (segment_audio (\<lambda>x. x) (\<lambda>a b. Inr \<lparr>xmin = a, xmax = b\<rparr>) 37 15)) = 37"
    using segments_cover_duration [of 37 15 "\<lambda>x. x" "\<lambda>a b. Inr \<lparr>xmin = a, xmax = b\<rparr>",
        THEN conjunct1]
    by (simp add: Let_def)
  have raised: "segment_audio (\<lambda>x. x)
        (\<lambda>a b. if a = 15 then Inl LibraryError else Inr \<lparr>xmin = a, xmax = b\<rparr>) 37 15 = []"
    using segments_cover_duration [of 37 15 "\<lambda>x. x"
        "\<lambda>a b. if a = 15 then Inl LibraryError else Inr \<lparr>xmin = a, xmax = b\<rparr>" "[0, 15, 30]" 15
        LibraryError, THEN conjunct2, THEN conjunct1] starts
    by simp
  from starts segs total raised show ?thesis by simp
qed

section \<open>Detection of silences\<close>

lemma below_runs_Nil: "below_runs thr t_last [] = []"
  by (subst below_runs.simps) simp

lemma below_runs_above:
  "\<not> v < thr \<Longrightarrow> below_runs thr t_last ((t, v) # rest) = below_runs thr t_last rest"
  by (subst below_runs.simps, subst (2) below_runs.simps) simp

lemma below_runs_below:
  "v < thr \<Longrightarrow> below_runs thr t_last ((t, v) # rest) =
     (case dropWhile (\<lambda>(t, v). v < thr) rest of
        [] \<Rightarrow> [(t, t_last)]
      | (t1, v1) # rest' \<Rightarrow> (t, t1) # below_runs thr t_last rest')"
  by (subst below_runs.simps) simp

text \<open>
  The loop, followed by the closing of an interval that is still open at the last
  timestamp, computes the intervals of \<open>below_runs\<close> that reach the minimum duration:
  first for a scan that starts with no open interval, then for one that starts with an
  interval open since \<open>s\<close>.
\<close>

lemma silence_loop_runs:
  fixes t_last mind :: real
    and finish :: "interval list \<times> (real \<times> real option) option \<Rightarrow> interval list"
  defines "finish \<equiv> \<lambda>r. (case r of
        (silences, Some (start, None)) \<Rightarrow>
          if t_last - start \<ge> mind then silences @ [(start, t_last)] else silences
      | (silences, _) \<Rightarrow> silences)"
  shows "finish (silence_loop thr mind frames acc None)
           = acc @ filter (\<lambda>(s, e). e - s \<ge> mind) (below_runs thr t_last frames)"
    and "finish (silence_loop thr mind frames acc (Some (s, None)))
           = acc @ filter (\<lambda>(s, e). e - s \<ge> mind)
               (case dropWhile (\<lambda>(t, v). v < thr) frames of
                  [] \<Rightarrow> [(s, t_last)]
                | (t1, v1) # rest' \<Rightarrow> (s, t1) # below_runs thr t_last rest')"
proof (induction frames arbitrary: acc s)
  case Nil
  {
    case 1
    show ?case by (simp add: finish_def below_runs_Nil)
  next
    case 2
    show ?case by (simp add: finish_def)
  }
next
  case (Cons f frames)
  obtain t v where f: "f = (t, v)" by (cases f)
  {
    case 1
    show ?case
    proof (cases "v < thr")
      case True
      then show ?thesis
        using Cons.IH(2) [of acc t] by (simp add: f below_runs_below)
    next
      case False
      then show ?thesis
        using Cons.IH(1) [of acc] by (simp add: f below_runs_above)
    qed
  next
    case 2
    show ?case
    proof (cases "v < thr")
      case True
      then show ?thesis
        using Cons.IH(2) [of acc s] by (simp add: f)
    next
      case False
      then show ?thesis
        using Cons.IH(1) [of "acc @ [(s, t)]"] Cons.IH(1) [of acc] by (simp add: f Let_def)
    qed
  }
qed


text \<open>
  On frames in increasing time order every interval ends before the next one starts, and
  every interval starts at the time of a frame.
\<close>

lemma below_runs_sorted:
  assumes "sorted_wrt (\<lambda>a b. fst a < fst b) frames"
  shows "sorted_wrt (\<lambda>a b. snd a < fst b) (below_runs thr t_last frames)
         \<and> (\<forall>b \<in> set (below_runs thr t_last frames). fst b \<in> fst ` set frames)"
    and "sorted_wrt (\<lambda>a b. snd a < fst b)
           (case dropWhile (\<lambda>(t, v). v < thr) frames of
              [] \<Rightarrow> [(s, t_last)]
            | (t1, v1) # rest' \<Rightarrow> (s, t1) # below_runs thr t_last rest')
         \<and> (\<forall>b \<in> set (tl (case dropWhile (\<lambda>(t, v). v < thr) frames of
              [] \<Rightarrow> [(s, t_last)]
            | (t1, v1) # rest' \<Rightarrow> (s, t1) # below_runs thr t_last rest')).
               fst b \<in> fst ` set frames)"
  using assms
proof (induction frames arbitrary: s)
  case Nil
  {
    case 1
    show ?case by (simp add: below_runs_Nil)
  next
    case 2
    show ?case by simp
  }
next
  case (Cons f frames)
  obtain t v where f: "f = (t, v)" by (cases f)
  {
    case 1
    then have later: "\<forall>x \<in> set frames. t < fst x"
      and sorted: "sorted_wrt (\<lambda>a b. fst a < fst b) frames"
      by (auto simp: f)
    show ?case
    proof (cases "v < thr")
      case True
      let ?X = "case dropWhile (\<lambda>(t, v). v < thr) frames of
              [] \<Rightarrow> [(t, t_last)]
            | (t1, v1) # rest' \<Rightarrow> (t, t1) # below_runs thr t_last rest'"
      have X: "below_runs thr t_last (f # frames) = ?X"
        using True by (simp add: f below_runs_below)
      have ne: "?X \<noteq> []" and hd: "fst (hd ?X) = t"
        by (auto split: list.splits)
      have "set ?X = insert (hd ?X) (set (tl ?X))"
        using ne by (cases ?X) auto
      then have "\<forall>b \<in> set ?X. fst b \<in> fst ` set (f # frames)"
        using Cons.IH(2) [OF sorted, of t] hd by (auto simp: f)
      then show ?thesis
        using Cons.IH(2) [OF sorted, of t] X by simp
    next
      case False
      then show ?thesis
        using Cons.IH(1) [OF sorted] by (auto simp: f below_runs_above)
    qed
  next
    case 2
    then have later: "\<forall>x \<in> set frames. t < fst x"
      and sorted: "sorted_wrt (\<lambda>a b. fst a < fst b) frames"
      by (auto simp: f)
    show ?case
    proof (cases "v < thr")
      case True
      then show ?thesis
        using Cons.IH(2) [OF sorted, of s] by (auto simp: f)
    next
      case False
      have "t < fst b" if b: "b \<in> set (below_runs thr t_last frames)" for b
      proof -
        have "fst b \<in> fst ` set frames"
          using Cons.IH(1) [OF sorted] b by blast
        then obtain x where "x \<in> set frames" and "fst b = fst x"
          by blast
        then show ?thesis
          using later by simp
      qed
      then have "\<forall>b \<in> set (below_runs thr t_last frames). t < fst b"
        by blast
      then show ?thesis
        using False Cons.IH(1) [OF sorted] by (auto simp: f)
    qed
  }
qed

lemma analyze_silences_spec:
  "analyze_silences (Inr (times', intensity_values)) thr mind
     = silence_spec times' intensity_values thr mind"
proof (cases "times' = []")
  case True
  then show ?thesis
    by (simp add: analyze_silences_def silence_spec_def below_runs_Nil)
next
  case False
  then show ?thesis
    using silence_loop_runs(1) [where t_last = "last times'" and mind = mind and thr = thr
        and frames = "zip times' intensity_values" and acc = "[]"]
    by (simp add: analyze_silences_def silence_spec_def split: prod.splits option.splits)
qed

text \<open>
  Claim C5. The silence detector returns what the specification describes: an interval
  opens at the first frame below the threshold, closes at the next frame at or above it,
  or at the last timestamp when the scan ends with the interval open, and it is emitted
  exactly when its duration is at least \<open>min_silence_duration\<close>. When the timestamps
  increase and the minimum duration is positive (the default is 0.5 s), the output is
  chronological and non-overlapping (each interval ends before the next one starts) and
  every interval has its end after its start and lasts at least the minimum. With the
  default threshold 40 and minimum 0.5 s, an interval of exactly 0.5 s is included and
  one of 0.49 s is not.
\<close>

theorem silence_detector_intervals:
  "analyze_silences (Inr (times', intensity_values)) silence_threshold min_silence_duration
     = silence_spec times' intensity_values silence_threshold min_silence_duration
   \<and> (sorted_wrt (<) times' \<and> 0 < min_silence_duration \<longrightarrow>
        sorted_wrt (\<lambda>a b. snd a < fst b)
          (analyze_silences (Inr (times', intensity_values)) silence_threshold min_silence_duration)
        \<and> (\<forall>(s, e) \<in> set (analyze_silences (Inr (times', intensity_values)) silence_threshold
                min_silence_duration). s < e \<and> e - s \<ge> min_silence_duration))
   \<and> analyze_silences (Inr ([1, 3 / 2], [30, 50])) 40 (1 / 2) = [(1, 3 / 2)]
   \<and> analyze_silences (Inr ([1, 149 / 100], [30, 50])) 40 (1 / 2) = []"
proof -
  let ?out = "analyze_silences (Inr (times', intensity_values)) silence_threshold
                min_silence_duration"
  let ?runs = "below_runs silence_threshold (last times') (zip times' intensity_values)"
  have spec: "?out = silence_spec times' intensity_values silence_threshold min_silence_duration"
    by (rule analyze_silences_spec)
  then have out: "?out = filter (\<lambda>(s, e). e - s \<ge> min_silence_duration) ?runs"
    by (simp add: silence_spec_def)
  have ordered: "sorted_wrt (\<lambda>a b. snd a < fst b) ?out
        \<and> (\<forall>(s, e) \<in> set ?out. s < e \<and> e - s \<ge> min_silence_duration)"
    if inc: "sorted_wrt (<) times'" and pos: "0 < min_silence_duration"
  proof -
    have "sorted_wrt (<) (map fst (zip times' intensity_values))"
      using inc by (simp add: map_fst_zip_take sorted_wrt_take)
    then have "sorted_wrt (\<lambda>a b. fst a < fst b) (zip times' intensity_values)"
      by (simp add: sorted_wrt_map)
    then have "sorted_wrt (\<lambda>a b. snd a < fst b) ?runs"
      using below_runs_sorted(1) by blast
    then have "sorted_wrt (\<lambda>a b. snd a < fst b) ?out"
      unfolding out by (rule sorted_wrt_filter)
    moreover have "\<forall>(s, e) \<in> set ?out. s < e \<and> e - s \<ge> min_silence_duration"
      unfolding out using pos by auto
    ultimately show ?thesis by blast
  qed
  have included: "analyze_silences (Inr ([1, 3 / 2], [30, 50])) 40 (1 / 2) = [(1, 3 / 2)]"
    by (simp add: analyze_silences_def)
  have excluded: "analyze_silences (Inr ([1, 149 / 100], [30, 50])) 40 (1 / 2) = []"
    by (simp add: analyze_silences_def)
  from spec ordered included excluded show ?thesis by blast
qed

theorem silence_detector_intervals_witness:
  "sorted_wrt (<) [0, 1, 2, 3, 4, 5 :: real] \<and> (0::real) < 1 / 2
   \<and> analyze_silences (Inr ([0, 1, 2, 3, 4, 5], [30, 30, 50, 30, 50, 30])) 40 (1 / 2)
       = [(0, 2), (3, 4)]
   \<and> sorted_wrt (\<lambda>a b. snd a < fst b)
       (analyze_silences (Inr ([0, 1, 2, 3, 4, 5], [30, 30, 50, 30, 50, 30])) 40 (1 / 2))"
proof -
  have out: "analyze_silences (Inr ([0, 1, 2, 3, 4, 5], [30, 30, 50, 30, 50, 30])) 40 (1 / 2)
       = [(0, 2), (3, 4)]"
    by (simp add: analyze_silences_def)
  have "sorted_wrt (\<lambda>a b. snd a < fst b)
       (analyze_silences (Inr ([0, 1, 2, 3, 4, 5], [30, 30, 50, 30, 50, 30])) 40 (1 / 2))"
    using silence_detector_intervals [of "[0, 1, 2, 3, 4, 5]" "[30, 30, 50, 30, 50, 30]" 40 "1 / 2",
        THEN conjunct2, THEN conjunct1]
    by simp
  with out show ?thesis by simp
qed

section \<open>The delay check\<close>

text \<open>
  The last check of \<^verbatim>\<open>classify_silences\<close> compares \<open>initial_delay\<close> with its
  threshold. Line 107 sets \<open>initial_delay\<close> to the start of the first interval when
  that start is 0, and to 0 otherwise: it is 0 either way. So "delay" is returned only
  for a threshold that is not positive, and never for the default thresholds. A list
  whose first interval lasts at least 15 s holds an interval of at least 10 s and
  classifies as "silence too long": no list has a longest interval under 10 s and a
  first interval of 15 s or more.
\<close>

lemma delay_needs_nonpositive_threshold:
  assumes "classify_silences silences total_duration_threshold initial_delay_threshold
             long_silence_threshold = ''delay''"
  shows "initial_delay_threshold \<le> 0"
proof (rule ccontr)
  assume "\<not> initial_delay_threshold \<le> 0"
  then have "classify_silences silences total_duration_threshold initial_delay_threshold
             long_silence_threshold \<noteq> ''delay''"
    by (simp add: classify_silences_def Let_def)
  with assms show False by simp
qed

lemma default_thresholds_never_delay: "classify_silences silences 15 15 10 \<noteq> ''delay''"
  using delay_needs_nonpositive_threshold [of silences 15 15 10] by auto

lemma long_first_interval_is_too_long:
  assumes "silences \<noteq> []" and "snd (silences ! 0) - fst (silences ! 0) \<ge> 15"
  shows "py_max_default (map (\<lambda>(start, end). end - start) silences) 0 \<ge> 10"
    and "classify_silences silences 15 15 10 = ''silence too long''"
proof -
  obtain s e rest where silences: "silences = (s, e) # rest"
    using assms(1) by (cases silences) auto
  have "e - s \<in> set (map (\<lambda>(start, end). end - start) silences)"
    by (simp add: silences)
  then have "e - s \<le> py_max_default (map (\<lambda>(start, end). end - start) silences) 0"
    by (rule py_max_default_ge)
  then show long: "py_max_default (map (\<lambda>(start, end). end - start) silences) 0 \<ge> 10"
    using assms(2) by (simp add: silences)
  then show "classify_silences silences 15 15 10 = ''silence too long''"
    using assms(1) by (simp add: classify_silences_def Let_def)
qed

end
